theory Spec2Isabelle
  imports Complex_Main "HOL-Library.Word" "HOL-Library.Char_ord" "HOL-Library.List_Lexorder"
begin

unbundle bit_operations_syntax

section \<open>Python values\<close>

text \<open>
  A Python \<open>str\<close> is modelled as a \<open>string\<close> whose characters are the code points
  0..255. \<open>str.strip()\<close> removes the characters for which \<open>str.isspace\<close> holds; on
  this range they are TAB, LF, VT, FF, CR, FS, GS, RS, US, SPACE, NEL and NBSP.
\<close>

definition py_isspace :: "char \<Rightarrow> bool" where
  "py_isspace c = (of_char c \<in> {9, 10, 11, 12, 13, 28, 29, 30, 31, 32, 133, 160 :: nat})"

definition strip :: "string \<Rightarrow> string" where
  "strip s = rev (dropWhile py_isspace (rev (dropWhile py_isspace s)))"

text \<open>
  Python floats are kept abstract: the type \<open>'f\<close> of floats and the operations the
  program applies to them are parameters, so that every theorem holds for the IEEE
  arithmetic of the interpreter. \<open>float_of_str\<close> is \<open>float(s)\<close> on a \<open>str\<close>
  (\<open>None\<close>: ValueError), \<open>float_of_int\<close> is \<open>float(i)\<close> on an \<open>int\<close>
  (\<open>None\<close>: OverflowError), \<open>str_of_float\<close> is \<open>str(x)\<close>, \<open>f_truthy\<close> is
  \<open>bool(x)\<close>, \<open>f_round2\<close> is \<open>round(x, 2)\<close>, and \<open>f_one\<close>, \<open>f_hundred\<close> are
  the integer literals 1 and 100 as they enter float arithmetic.
\<close>

record 'f pyfloat =
  float_of_str :: "string \<Rightarrow> 'f option"
  float_of_int :: "int \<Rightarrow> 'f option"
  str_of_float :: "'f \<Rightarrow> string"
  f_one :: 'f
  f_hundred :: 'f
  f_add :: "'f \<Rightarrow> 'f \<Rightarrow> 'f"
  f_mul :: "'f \<Rightarrow> 'f \<Rightarrow> 'f"
  f_div :: "'f \<Rightarrow> 'f \<Rightarrow> 'f"
  f_le :: "'f \<Rightarrow> 'f \<Rightarrow> bool"
  f_gt :: "'f \<Rightarrow> 'f \<Rightarrow> bool"
  f_truthy :: "'f \<Rightarrow> bool"
  f_round2 :: "'f \<Rightarrow> 'f"

text \<open>
  The values a record field read from JSON can hold where the program takes an
  \<open>object\<close>: \<open>None\<close>, a \<open>str\<close>, a \<open>float\<close>, an \<open>int\<close>, or anything else
  (a list or a dict, on which \<open>float()\<close> raises TypeError). Booleans are left out.
\<close>

datatype 'f pyval = PNone | PStr string | PFloat 'f | PInt int | POther

text \<open>
  \<open>d.get(k)\<close> and \<open>d.get(k, default)\<close> on a dict whose values may be \<open>None\<close>: the
  default is used only when the key is missing, not when it is bound to \<open>None\<close>.
\<close>

definition dict_get :: "('k \<rightharpoonup> 'f pyval) \<Rightarrow> 'k \<Rightarrow> 'f pyval" where
  "dict_get d k = (case d k of None \<Rightarrow> PNone | Some v \<Rightarrow> v)"

definition dict_get_default :: "('k \<rightharpoonup> 'f pyval) \<Rightarrow> 'k \<Rightarrow> 'f pyval \<Rightarrow> 'f pyval" where
  "dict_get_default d k dflt = (case d k of None \<Rightarrow> dflt | Some v \<Rightarrow> v)"

definition opt_str :: "string option \<Rightarrow> 'f pyval" where
  "opt_str s = (case s of None \<Rightarrow> PNone | Some t \<Rightarrow> PStr t)"

definition opt_float :: "'f option \<Rightarrow> 'f pyval" where
  "opt_float x = (case x of None \<Rightarrow> PNone | Some y \<Rightarrow> PFloat y)"

text \<open>\<open>a or b\<close> on optional strings: a string is truthy when it is not empty.\<close>

definition str_or :: "string option \<Rightarrow> string option \<Rightarrow> string option" where
  "str_or a b = (case a of Some s \<Rightarrow> (if s \<noteq> [] then a else b) | None \<Rightarrow> b)"

section \<open>Configuration (config.py)\<close>

record price_selector =
  price_type :: string
  currency :: string

record mapping_config =
  product_number :: string
  name :: string
  description :: string
  ean :: string
  manufacturer :: string
  price_selector :: price_selector

section \<open>The source document (lxml elements)\<close>

text \<open>
  An element as lxml shows it: its tag in Clark notation (\<open>{namespace}local\<close>, or the
  bare local name), its attributes, its \<open>text\<close> (the character data before the first
  child, \<open>None\<close> when there is none) and its child elements in document order.
\<close>

datatype xml = Elem (el_tag: string) (el_attrs: "(string \<times> string) list")
  (el_text: "string option") (el_children: "xml list")

text \<open>\<open>_strip_ns\<close>: the part of the tag after the first closing brace, if there is one.\<close>

definition strip_ns :: "string \<Rightarrow> string" where
  "strip_ns tag = (if CHR ''}'' \<in> set tag then tl (dropWhile (\<lambda>c. c \<noteq> CHR ''}'') tag) else tag)"

text \<open>The proper descendants of an element, in document order.\<close>

fun descendants :: "xml \<Rightarrow> xml list" where
  "descendants (Elem tag attrs txt cs) = concat (map (\<lambda>c. c # descendants c) cs)"

text \<open>
  \<open>elem.findall(".//{*}TAG")\<close> and \<open>elem.find(".//{*}TAG")\<close>: the descendants whose
  local name is \<open>TAG\<close>, whatever their namespace, and the first of them. \<open>TAG\<close> is
  a plain element name.
\<close>

definition findall :: "xml \<Rightarrow> string \<Rightarrow> xml list" where
  "findall elem tag = filter (\<lambda>d. strip_ns (el_tag d) = tag) (descendants elem)"

definition find_first :: "xml \<Rightarrow> string \<Rightarrow> xml option" where
  "find_first elem tag = (case findall elem tag of [] \<Rightarrow> None | d # _ \<Rightarrow> Some d)"

text \<open>\<open>elem.findall(".//{*}PARENT/{*}CHILD")\<close>.\<close>

definition findall_child :: "xml \<Rightarrow> string \<Rightarrow> string \<Rightarrow> xml list" where
  "findall_child elem parent child =
     concat (map (\<lambda>p. filter (\<lambda>c. strip_ns (el_tag c) = child) (el_children p))
                 (findall elem parent))"

section \<open>The record extractor (bmecat.py)\<close>

definition find_text :: "xml \<Rightarrow> string \<Rightarrow> string option" where
  "find_text elem tag =
     (case find_first elem tag of
        None \<Rightarrow> None
      | Some found \<Rightarrow>
          (case el_text found of
             None \<Rightarrow> None
           | Some t \<Rightarrow> (let s = strip t in if s = [] then None else Some s)))"

text \<open>
  \<open>_find_price\<close> returns a dict that always binds both keys, \<open>net\<close> and
  \<open>currency\<close>, possibly to \<open>None\<close>.
\<close>

fun find_price_in :: "'f pyfloat \<Rightarrow> xml list \<Rightarrow> string \<Rightarrow> (string \<rightharpoonup> 'f pyval)" where
  "find_price_in fl [] ptype = [''net'' \<mapsto> PNone, ''currency'' \<mapsto> PNone]"
| "find_price_in fl (price # rest) ptype =
     (if map_of (el_attrs price) ''price_type'' \<noteq> Some ptype then find_price_in fl rest ptype
      else
        let amount = find_text price ''PRICE_AMOUNT'';
            cur = find_text price ''PRICE_CURRENCY'';
            net = (case amount of None \<Rightarrow> None | Some a \<Rightarrow> float_of_str fl a)
        in [''net'' \<mapsto> opt_float net, ''currency'' \<mapsto> opt_str cur])"

definition find_price :: "'f pyfloat \<Rightarrow> xml \<Rightarrow> string \<Rightarrow> (string \<rightharpoonup> 'f pyval)" where
  "find_price fl elem ptype = find_price_in fl (findall elem ''ARTICLE_PRICE'') ptype"

text \<open>
  \<open>_find_tax\<close>: the loop skips a candidate tag without text; at the first candidate
  with text it returns, the parsed number or \<open>None\<close> on ValueError.
\<close>

fun find_tax_in :: "'f pyfloat \<Rightarrow> xml \<Rightarrow> string list \<Rightarrow> 'f option" where
  "find_tax_in fl elem [] = None"
| "find_tax_in fl elem (tag # tags) =
     (case find_text elem tag of
        None \<Rightarrow> find_tax_in fl elem tags
      | Some v \<Rightarrow> float_of_str fl v)"

definition tax_tags :: "string list" where
  "tax_tags = [''TAX'', ''TAX_RATE'', ''TAX_RATE_PERCENT'']"

definition find_tax :: "'f pyfloat \<Rightarrow> xml \<Rightarrow> 'f option" where
  "find_tax fl elem = find_tax_in fl elem tax_tags"

record feature =
  feat_name :: "string option"
  feat_value :: "string option"
  feat_unit :: "string option"

text \<open>A feature entry carries the key \<open>unit\<close> only when the unit is not empty.\<close>

definition parse_feature :: "xml \<Rightarrow> feature option" where
  "parse_feature f =
     (let n = str_or (find_text f ''FNAME'') (find_text f ''NAME'');
          v = str_or (find_text f ''FVALUE'') (find_text f ''VALUE'');
          u = str_or (find_text f ''FUNIT'') (find_text f ''UNIT'')
      in if (n = None \<or> n = Some []) \<and> (v = None \<or> v = Some []) then None
         else Some \<lparr>feat_name = n, feat_value = v,
                    feat_unit = (if u = Some [] then None else u)\<rparr>)"

definition find_features :: "xml \<Rightarrow> feature list" where
  "find_features elem =
     List.map_filter parse_feature
       (findall_child elem ''ARTICLE_FEATURES'' ''FEATURE''
        @ findall_child elem ''PRODUCT_FEATURES'' ''FEATURE'')"

definition find_media :: "xml \<Rightarrow> string list" where
  "find_media elem =
     List.map_filter (\<lambda>mime. find_text mime ''MIME_SOURCE'')
       (findall_child elem ''MIME_INFO'' ''MIME'')"

text \<open>
  The intermediate product record, a dict in the program. The text fields are
  \<open>None\<close> when the key is missing or bound to \<open>None\<close>; \<open>prod_price\<close> is \<open>None\<close>
  when the key \<open>price\<close> is missing; \<open>prod_media\<close> is \<open>None\<close> when the key
  \<open>media\<close> is missing.
\<close>

record 'f price =
  price_net :: "'f pyval"
  price_currency :: "'f pyval"

record 'f product =
  prod_number :: "string option"
  prod_name :: "string option"
  prod_description :: "string option"
  prod_ean :: "string option"
  prod_manufacturer :: "string option"
  prod_price :: "'f price option"
  prod_tax_rate :: "'f pyval"
  prod_etim :: "feature list"
  prod_media :: "string list option"

definition parse_article :: "'f pyfloat \<Rightarrow> mapping_config \<Rightarrow> xml \<Rightarrow> 'f product option" where
  "parse_article fl mapping elem =
     (let pn = find_text elem (product_number mapping);
          nm = find_text elem (name mapping)
      in if pn = None \<or> nm = None then None
         else
           let price_info = find_price fl elem (price_type (price_selector mapping));
               net = dict_get price_info ''net'';
               cur = dict_get_default price_info ''currency''
                       (PStr (currency (price_selector mapping)));
               media = find_media elem
           in Some \<lparr>prod_number = pn, prod_name = nm,
                     prod_description = find_text elem (description mapping),
                     prod_ean = find_text elem (ean mapping),
                     prod_manufacturer = find_text elem (manufacturer mapping),
                     prod_price = Some \<lparr>price_net = net, price_currency = cur\<rparr>,
                     prod_tax_rate = opt_float (find_tax fl elem),
                     prod_etim = find_features elem,
                     prod_media = (if media = [] then None else Some media)\<rparr>)"

text \<open>
  \<open>iter_bmecat_products\<close> over the elements lxml's \<open>iterparse\<close> delivers at their
  end events, each taken as it stands at that moment.
\<close>

definition iter_bmecat_products :: "'f pyfloat \<Rightarrow> mapping_config \<Rightarrow> xml list \<Rightarrow> 'f product list" where
  "iter_bmecat_products fl mapping events =
     List.map_filter (parse_article fl mapping)
       (filter (\<lambda>elem. strip_ns (el_tag elem) = ''ARTICLE'') events)"

section \<open>IEEE binary64 arithmetic\<close>

text \<open>
  The interpreter's floats, for the concrete evaluations: a finite double is given by
  its value (the two zeros are identified, as \<open>==\<close> identifies them), and every
  operation is the exact one followed by rounding to the nearest double, ties to even.
\<close>

datatype b64 = Fin rat | PInf | NInf | NaN

text \<open>Integers are kept in \<open>int\<close> throughout, so that large values stay in binary.\<close>

definition ipow :: "int \<Rightarrow> int \<Rightarrow> rat" where
  "ipow b k = (if 0 \<le> k then of_int (b ^ nat k) else 1 / of_int (b ^ nat (- k)))"

text \<open>The number of digits of \<open>n\<close> in base \<open>b\<close> (0 for \<open>n \<le> 0\<close>).\<close>

function digit_count :: "int \<Rightarrow> int \<Rightarrow> int" where
  "digit_count b n = (if n \<le> 0 \<or> b \<le> 1 then 0 else 1 + digit_count b (n div b))"
  by pat_completeness auto
termination
proof (relation "measure (\<lambda>(b, n). nat n)")
  show "wf (measure (\<lambda>(b, n). nat n))"
    by simp
next
  fix b n :: int
  assume "\<not> (n \<le> 0 \<or> b \<le> 1)"
  then have "0 < n" and "1 < b"
    by simp_all
  then have "n div b < n"
    by (rule int_div_less_self)
  moreover have "0 \<le> n div b"
    using \<open>0 < n\<close> \<open>1 < b\<close> by (simp add: pos_imp_zdiv_nonneg_iff)
  ultimately show "((b, n div b), (b, n)) \<in> measure (\<lambda>(b, n). nat n)"
    by simp
qed

text \<open>\<open>floor_log b a\<close> is the integer \<open>k\<close> with \<open>b ^ k \<le> a < b ^ (k + 1)\<close>, for \<open>a > 0\<close>.\<close>

definition floor_log :: "int \<Rightarrow> rat \<Rightarrow> int" where
  "floor_log b a =
     (if 1 \<le> a then digit_count b \<lfloor>a\<rfloor> - 1 else - digit_count b (\<lceil>1 / a\<rceil> - 1))"

definition round_half_even :: "rat \<Rightarrow> int" where
  "round_half_even x =
     (let n = \<lfloor>x\<rfloor>; d = x - of_int n
      in if d < 1 / 2 then n else if 1 / 2 < d then n + 1
         else if even n then n else n + 1)"

text \<open>
  Rounding a rational to binary64: 53 significant bits, the exponent \<open>e\<close> of the last
  place never below -1074 (subnormal numbers), overflow to an infinity from
  \<open>2 ^ 1024\<close> on. The rounded magnitude is \<open>m * 2 ^ e\<close>; it reaches \<open>2 ^ 1024\<close>
  exactly when the number of bits of \<open>m\<close> plus \<open>e\<close> exceeds 1024.
\<close>

definition rnd64 :: "rat \<Rightarrow> b64" where
  "rnd64 x =
     (if x = 0 then Fin 0
      else
        let a = \<bar>x\<bar>;
            e = max (floor_log 2 a) (- 1022) - 52;
            m = round_half_even (a / ipow 2 e)
        in if 1024 < digit_count 2 m + e then (if 0 < x then PInf else NInf)
           else Fin ((if 0 < x then of_int m else - of_int m) * ipow 2 e))"

fun b_neg :: "b64 \<Rightarrow> b64" where
  "b_neg (Fin x) = Fin (- x)"
| "b_neg PInf = NInf"
| "b_neg NInf = PInf"
| "b_neg NaN = NaN"

fun b_add :: "b64 \<Rightarrow> b64 \<Rightarrow> b64" where
  "b_add (Fin x) (Fin y) = rnd64 (x + y)"
| "b_add NaN _ = NaN"
| "b_add _ NaN = NaN"
| "b_add PInf NInf = NaN"
| "b_add NInf PInf = NaN"
| "b_add PInf _ = PInf"
| "b_add NInf _ = NInf"
| "b_add _ PInf = PInf"
| "b_add _ NInf = NInf"

fun b_mul :: "b64 \<Rightarrow> b64 \<Rightarrow> b64" where
  "b_mul (Fin x) (Fin y) = rnd64 (x * y)"
| "b_mul NaN _ = NaN"
| "b_mul _ NaN = NaN"
| "b_mul (Fin x) y = (if x = 0 then NaN else if 0 < x then y else b_neg y)"
| "b_mul x (Fin y) = (if y = 0 then NaN else if 0 < y then x else b_neg x)"
| "b_mul PInf y = y"
| "b_mul NInf y = b_neg y"

text \<open>
  Division by a zero raises ZeroDivisionError in Python; the program divides by the
  literal 100 only, and the model gives \<open>NaN\<close> for a zero divisor.
\<close>

fun b_div :: "b64 \<Rightarrow> b64 \<Rightarrow> b64" where
  "b_div (Fin x) (Fin y) = (if y = 0 then NaN else rnd64 (x / y))"
| "b_div NaN _ = NaN"
| "b_div _ NaN = NaN"
| "b_div (Fin x) _ = Fin 0"
| "b_div PInf (Fin y) = (if y = 0 then NaN else if 0 < y then PInf else NInf)"
| "b_div NInf (Fin y) = (if y = 0 then NaN else if 0 < y then NInf else PInf)"
| "b_div _ _ = NaN"

fun b_le :: "b64 \<Rightarrow> b64 \<Rightarrow> bool" where
  "b_le (Fin x) (Fin y) = (x \<le> y)"
| "b_le NaN _ = False"
| "b_le _ NaN = False"
| "b_le NInf _ = True"
| "b_le _ PInf = True"
| "b_le _ _ = False"

definition b_gt :: "b64 \<Rightarrow> b64 \<Rightarrow> bool" where
  "b_gt x y = (x \<noteq> y \<and> b_le y x)"

definition b_truthy :: "b64 \<Rightarrow> bool" where
  "b_truthy x = (x \<noteq> Fin 0)"

text \<open>
  \<open>round(x, 2)\<close>: the exact value of the double rounded to two decimal places, ties to
  even, and the result read back as the nearest double; an infinity or a NaN rounds to
  itself.
\<close>

fun b_round2 :: "b64 \<Rightarrow> b64" where
  "b_round2 (Fin x) = rnd64 (of_int (round_half_even (x * 100)) / 100)"
| "b_round2 x = x"

definition b_of_int :: "int \<Rightarrow> b64 option" where
  "b_of_int i = (case rnd64 (of_int i) of Fin v \<Rightarrow> Some (Fin v) | _ \<Rightarrow> None)"

subsection \<open>Reading and printing decimals\<close>

definition digit_char :: "int \<Rightarrow> char" where
  "digit_char d = char_of (48 + d)"

text \<open>The decimal digits of a number \<open>n \<ge> 0\<close>.\<close>

function str_of_nat :: "int \<Rightarrow> string" where
  "str_of_nat n =
     (if n < 10 then [digit_char n] else str_of_nat (n div 10) @ [digit_char (n mod 10)])"
  by pat_completeness auto
termination
  by (relation "measure (\<lambda>n. nat n)") auto

declare digit_count.simps [simp del] str_of_nat.simps [simp del]

text \<open>\<open>str(i)\<close> on an \<open>int\<close>.\<close>

definition str_of_int :: "int \<Rightarrow> string" where
  "str_of_int i = (if i < 0 then CHR ''-'' # str_of_nat (- i) else str_of_nat i)"

definition is_digit :: "char \<Rightarrow> bool" where
  "is_digit c = (48 \<le> (of_char c :: nat) \<and> (of_char c :: nat) \<le> 57)"

definition nat_of_digits :: "string \<Rightarrow> int" where
  "nat_of_digits ds = foldl (\<lambda>acc c. 10 * acc + (of_char c - 48)) 0 ds"

text \<open>
  The decimal spellings \<open>digits\<close>, \<open>digits.\<close>, \<open>.digits\<close> and \<open>digits.digits\<close>
  with their exact value.
\<close>

definition decimal_value :: "string \<Rightarrow> rat option" where
  "decimal_value s =
     (let ip = takeWhile is_digit s; r = dropWhile is_digit s
      in if r = [] then (if ip = [] then None else Some (of_int (nat_of_digits ip)))
         else if hd r \<noteq> CHR ''.'' then None
         else
           let fp = tl r
           in if \<not> list_all is_digit fp \<or> (ip = [] \<and> fp = []) then None
              else Some (of_int (nat_of_digits ip)
                         + of_int (nat_of_digits fp) / 10 ^ length fp))"

text \<open>
  \<open>float(s)\<close> on the plain decimal spellings, with an optional sign: the nearest
  double. The other spellings \<open>float\<close> accepts (exponents, \<open>inf\<close>, \<open>nan\<close>,
  underscores, surrounding white space) are outside this instance, which reads them
  as unparsable; no evaluation below passes one.
\<close>

definition b_of_str :: "string \<Rightarrow> b64 option" where
  "b_of_str s =
     (case s of
        [] \<Rightarrow> None
      | c # cs \<Rightarrow>
          if c = CHR ''-'' then map_option (\<lambda>v. rnd64 (- v)) (decimal_value cs)
          else if c = CHR ''+'' then map_option rnd64 (decimal_value cs)
          else map_option rnd64 (decimal_value s))"

text \<open>
  \<open>str(x)\<close> on a float: the shortest decimal digit string that reads back as the same
  double. \<open>digits_at a n\<close> looks for such a number with \<open>n\<close> significant digits
  among the two neighbours of \<open>a\<close>, and returns it as an integer \<open>m\<close> with a decimal
  exponent \<open>k\<close> (the number is \<open>m * 10 ^ k\<close>); \<open>shortest_digits a n fuel\<close> tries
  \<open>n\<close>, \<open>n + 1\<close>, ... digits. Seventeen digits always suffice.
\<close>

definition digits_at :: "rat \<Rightarrow> nat \<Rightarrow> (int \<times> int) option" where
  "digits_at a n =
     (let k = floor_log 10 a + 1 - int n;
          scale = ipow 10 k;
          lo = \<lfloor>a / scale\<rfloor>;
          hi = lo + 1;
          lo_ok = (rnd64 (of_int lo * scale) = Fin a);
          hi_ok = (rnd64 (of_int hi * scale) = Fin a);
          m = (if lo_ok \<and> hi_ok
               then (if a - of_int lo * scale < of_int hi * scale - a then lo
                     else if of_int hi * scale - a < a - of_int lo * scale then hi
                     else if even lo then lo else hi)
               else if lo_ok then lo else hi)
      in if lo_ok \<or> hi_ok then Some (m, k) else None)"

fun shortest_digits :: "rat \<Rightarrow> nat \<Rightarrow> nat \<Rightarrow> (int \<times> int) option" where
  "shortest_digits a n 0 = digits_at a n"
| "shortest_digits a n (Suc fuel) =
     (case digits_at a n of Some r \<Rightarrow> Some r | None \<Rightarrow> shortest_digits a (Suc n) fuel)"

definition strip_zeros :: "string \<Rightarrow> string" where
  "strip_zeros ds = rev (dropWhile (\<lambda>c. c = CHR ''0'') (rev ds))"

text \<open>
  The layout of \<open>repr\<close>: \<open>ds\<close> are the significant digits and the value is
  \<open>0.ds * 10 ^ point\<close>; positional notation for \<open>-4 < point \<le> 16\<close>, scientific
  notation otherwise.
\<close>

definition format_repr :: "string \<Rightarrow> int \<Rightarrow> string" where
  "format_repr ds point =
     (let n = int (length ds)
      in if - 4 < point \<and> point \<le> 16 then
           (if point \<le> 0 then ''0.'' @ replicate (nat (- point)) (CHR ''0'') @ ds
            else if n \<le> point then ds @ replicate (nat (point - n)) (CHR ''0'') @ ''.0''
            else take (nat point) ds @ ''.'' @ drop (nat point) ds)
         else
           (let ex = point - 1;
                mant = (if length ds = 1 then ds else hd ds # CHR ''.'' # tl ds);
                exs = str_of_nat \<bar>ex\<bar>
            in mant @ ''e'' @ (if ex < 0 then ''-'' else ''+'')
               @ (if length exs < 2 then CHR ''0'' # exs else exs)))"

fun b_str :: "b64 \<Rightarrow> string" where
  "b_str (Fin x) =
     (if x = 0 then ''0.0''
      else case shortest_digits \<bar>x\<bar> 1 16 of
             None \<Rightarrow> []
           | Some (m, k) \<Rightarrow>
               (let full = str_of_nat m
                in (if x < 0 then ''-'' else [])
                   @ format_repr (strip_zeros full) (k + int (length full))))"
| "b_str PInf = ''inf''"
| "b_str NInf = ''-inf''"
| "b_str NaN = ''nan''"

definition binary64 :: "b64 pyfloat" where
  "binary64 =
     \<lparr>float_of_str = b_of_str, float_of_int = b_of_int, str_of_float = b_str,
      f_one = Fin 1, f_hundred = Fin 100, f_add = b_add, f_mul = b_mul, f_div = b_div,
      f_le = b_le, f_gt = b_gt, f_truthy = b_truthy, f_round2 = b_round2\<rparr>"

section \<open>Name-based identifiers (uuid.uuid5)\<close>

text \<open>
  \<open>_stable_uuid(prefix, value)\<close> is \<open>str(uuid.uuid5(uuid.NAMESPACE_URL, prefix + ":" + value))\<close>:
  the SHA-1 digest of the 16 namespace bytes followed by the UTF-8 encoding of the name,
  cut to 128 bits, with the version and variant bits set, printed as 32 hexadecimal
  digits in the groups 8-4-4-4-12.
\<close>

type_synonym byte = "8 word"

definition utf8 :: "string \<Rightarrow> byte list" where
  "utf8 s =
     concat (map (\<lambda>c. let n = (of_char c :: nat)
                      in if n < 128 then [of_nat n]
                         else [of_nat (192 + n div 64), of_nat (128 + n mod 64)]) s)"

definition word_of_bytes :: "byte list \<Rightarrow> 'a::len word" where
  "word_of_bytes bs = foldl (\<lambda>acc b. push_bit 8 acc OR ucast b) 0 bs"

definition bytes_of_word64 :: "64 word \<Rightarrow> byte list" where
  "bytes_of_word64 w = map (\<lambda>i. ucast (drop_bit (8 * (7 - i)) w)) [0..<8]"

definition sha1_pad :: "byte list \<Rightarrow> byte list" where
  "sha1_pad m =
     m @ [0x80] @ replicate ((119 - length m mod 64) mod 64) 0
       @ bytes_of_word64 (of_nat (8 * length m))"

definition sha1_blocks :: "byte list \<Rightarrow> byte list list" where
  "sha1_blocks m = map (\<lambda>i. take 64 (drop (64 * i) m)) [0..<length m div 64]"

definition block_words :: "byte list \<Rightarrow> 32 word list" where
  "block_words b = map (\<lambda>i. word_of_bytes (take 4 (drop (4 * i) b))) [0..<16]"

primrec sha1_extend :: "nat \<Rightarrow> 32 word list \<Rightarrow> 32 word list" where
  "sha1_extend 0 w = w"
| "sha1_extend (Suc n) w =
     (let i = length w
      in sha1_extend n
           (w @ [word_rotl 1 (w ! (i - 3) XOR w ! (i - 8) XOR w ! (i - 14) XOR w ! (i - 16))]))"

definition sha1_f :: "nat \<Rightarrow> 32 word \<Rightarrow> 32 word \<Rightarrow> 32 word \<Rightarrow> 32 word" where
  "sha1_f t b c d =
     (if t < 20 then (b AND c) OR (NOT b AND d)
      else if t < 40 then b XOR c XOR d
      else if t < 60 then (b AND c) OR (b AND d) OR (c AND d)
      else b XOR c XOR d)"

definition sha1_k :: "nat \<Rightarrow> 32 word" where
  "sha1_k t =
     (if t < 20 then 0x5A827999 else if t < 40 then 0x6ED9EBA1
      else if t < 60 then 0x8F1BBCDC else 0xCA62C1D6)"

type_synonym sha1_state = "32 word \<times> 32 word \<times> 32 word \<times> 32 word \<times> 32 word"

definition sha1_round :: "32 word list \<Rightarrow> sha1_state \<Rightarrow> nat \<Rightarrow> sha1_state" where
  "sha1_round w s t =
     (case s of (a, b, c, d, e) \<Rightarrow>
        (word_rotl 5 a + sha1_f t b c d + e + sha1_k t + w ! t, a, word_rotl 30 b, c, d))"

definition sha1_block :: "sha1_state \<Rightarrow> byte list \<Rightarrow> sha1_state" where
  "sha1_block h blk =
     (let w = sha1_extend 64 (block_words blk)
      in case (h, foldl (sha1_round w) h [0..<80]) of
           ((h0, h1, h2, h3, h4), (a, b, c, d, e)) \<Rightarrow> (h0 + a, h1 + b, h2 + c, h3 + d, h4 + e))"

definition sha1 :: "byte list \<Rightarrow> 32 word list" where
  "sha1 m =
     (case foldl sha1_block (0x67452301, 0xEFCDAB89, 0x98BADCFE, 0x10325476, 0xC3D2E1F0)
             (sha1_blocks (sha1_pad m)) of
        (h0, h1, h2, h3, h4) \<Rightarrow> [h0, h1, h2, h3, h4])"

text \<open>The first 16 bytes of the digest as one number, most significant byte first.\<close>

definition digest128 :: "32 word list \<Rightarrow> 128 word" where
  "digest128 h = foldl (\<lambda>acc w. push_bit 32 acc OR ucast w) 0 (take 4 h)"

definition NAMESPACE_URL :: "byte list" where
  "NAMESPACE_URL =
     [0x6b, 0xa7, 0xb8, 0x11, 0x9d, 0xad, 0x11, 0xd1, 0x80, 0xb4, 0x00, 0xc0, 0x4f, 0xd4, 0x30, 0xc8]"

definition uuid5 :: "byte list \<Rightarrow> string \<Rightarrow> 128 word" where
  "uuid5 namespace nm =
     (let i0 = digest128 (sha1 (namespace @ utf8 nm));
          i1 = i0 AND NOT (push_bit 48 0xc000);
          i2 = i1 OR push_bit 48 0x8000;
          i3 = i2 AND NOT (push_bit 64 0xf000)
      in i3 OR push_bit 76 5)"

definition hex_digit :: "nat \<Rightarrow> char" where
  "hex_digit d = (if d < 10 then char_of (48 + d) else char_of (87 + d))"

definition hex32 :: "128 word \<Rightarrow> string" where
  "hex32 u = map (\<lambda>i. hex_digit (unat (drop_bit (4 * (31 - i)) u AND 15))) [0..<32]"

definition uuid_str :: "128 word \<Rightarrow> string" where
  "uuid_str u =
     (let h = hex32 u
      in take 8 h @ ''-'' @ take 4 (drop 8 h) @ ''-'' @ take 4 (drop 12 h) @ ''-''
         @ take 4 (drop 16 h) @ ''-'' @ drop 20 h)"

definition stable_uuid :: "string \<Rightarrow> string \<Rightarrow> string" where
  "stable_uuid prefix v = uuid_str (uuid5 NAMESPACE_URL (prefix @ '':'' @ v))"

section \<open>Settings and exceptions\<close>

record shopware_config =
  base_url :: string
  client_id :: "string option"
  client_secret :: "string option"
  token :: "string option"
  sales_channel_id :: "string option"
  default_visibility :: "int option"

text \<open>\<open>TaxConfig.mapping\<close> is the field \<open>tax_mapping\<close> here.\<close>

record 'f tax_config =
  default_rate :: 'f
  tax_mapping :: "string \<rightharpoonup> 'f"

record 'f settings =
  source_name :: string
  mapping :: mapping_config
  shopware :: shopware_config
  tax :: "'f tax_config"

text \<open>The exceptions of a run, each with the text \<open>str(exc)\<close> gives.\<close>

datatype pyexc = ValueError string | OverflowError string | HTTPError string
  | SyncError string | OtherError string

fun exc_str :: "pyexc \<Rightarrow> string" where
  "exc_str (ValueError m) = m"
| "exc_str (OverflowError m) = m"
| "exc_str (HTTPError m) = m"
| "exc_str (SyncError m) = m"
| "exc_str (OtherError m) = m"

section \<open>Tax rates and prices (importer.py)\<close>

text \<open>\<open>float(value)\<close> on an object other than \<open>None\<close>.\<close>

datatype 'f conv = Conv 'f | TypeErr | ValueErr | OverflowErr

fun py_float :: "'f pyfloat \<Rightarrow> 'f pyval \<Rightarrow> 'f conv" where
  "py_float fl PNone = TypeErr"
| "py_float fl (PStr s) = (case float_of_str fl s of None \<Rightarrow> ValueErr | Some x \<Rightarrow> Conv x)"
| "py_float fl (PFloat x) = Conv x"
| "py_float fl (PInt i) = (case float_of_int fl i of None \<Rightarrow> OverflowErr | Some x \<Rightarrow> Conv x)"
| "py_float fl POther = TypeErr"

text \<open>\<open>str(value)\<close>; it is never taken of a list or a dict.\<close>

fun py_str :: "'f pyfloat \<Rightarrow> 'f pyval \<Rightarrow> string" where
  "py_str fl PNone = ''None''"
| "py_str fl (PStr s) = s"
| "py_str fl (PFloat x) = str_of_float fl x"
| "py_str fl (PInt i) = str_of_int i"
| "py_str fl POther = []"

text \<open>\<open>a or b\<close> on the results of \<open>dict.get\<close>: a float is truthy when it is not zero.\<close>

definition float_or :: "'f pyfloat \<Rightarrow> 'f option \<Rightarrow> 'f option \<Rightarrow> 'f option" where
  "float_or fl a b = (case a of Some v \<Rightarrow> (if f_truthy fl v then a else b) | None \<Rightarrow> b)"

definition calculate_gross :: "'f pyfloat \<Rightarrow> 'f \<Rightarrow> 'f \<Rightarrow> 'f" where
  "calculate_gross fl net tax_rate =
     (let rate = (if f_gt fl tax_rate (f_one fl) then f_div fl tax_rate (f_hundred fl)
                  else tax_rate)
      in f_round2 fl (f_mul fl net (f_add fl (f_one fl) rate)))"

definition resolve_tax_rate :: "'f pyfloat \<Rightarrow> 'f pyval \<Rightarrow> 'f settings \<Rightarrow> pyexc + 'f" where
  "resolve_tax_rate fl raw_rate settings =
     (if raw_rate = PNone then Inr (default_rate (tax settings))
      else case py_float fl raw_rate of
             TypeErr \<Rightarrow> Inr (default_rate (tax settings))
           | ValueErr \<Rightarrow> Inr (default_rate (tax settings))
           | OverflowErr \<Rightarrow> Inl (OverflowError ''int too large to convert to float'')
           | Conv rate \<Rightarrow>
               (let rate_percent = (if f_le fl rate (f_one fl) then f_mul fl rate (f_hundred fl)
                                    else rate);
                    m = tax_mapping (tax settings);
                    mapped = float_or fl (float_or fl (m (py_str fl raw_rate))
                                                      (m (str_of_float fl rate)))
                                         (m (str_of_float fl rate_percent))
                in Inr (case mapped of Some v \<Rightarrow> v | None \<Rightarrow> rate_percent)))"

definition coerce_float :: "'f pyfloat \<Rightarrow> 'f pyval \<Rightarrow> pyexc + 'f option" where
  "coerce_float fl v =
     (if v = PNone then Inr None
      else case py_float fl v of
             Conv x \<Rightarrow> Inr (Some x)
           | TypeErr \<Rightarrow> Inr None
           | ValueErr \<Rightarrow> Inr None
           | OverflowErr \<Rightarrow> Inl (OverflowError ''int too large to convert to float''))"

section \<open>Payloads (importer.py)\<close>

record 'f price_entry =
  currencyId :: string
  net :: 'f
  gross :: 'f
  linked :: bool

record visibility_entry =
  salesChannelId :: string
  visibility :: int

record 'f product_payload =
  pl_id :: string
  pl_productNumber :: string
  pl_name :: string
  pl_description :: "string option"
  pl_ean :: "string option"
  pl_manufacturerId :: "string option"
  pl_taxId :: string
  pl_price :: "'f price_entry list"
  pl_stock :: int
  pl_active :: bool
  pl_customFields :: "feature list"
  pl_visibilities :: "visibility_entry list option"

record manufacturer_payload =
  mf_id :: string
  mf_name :: string

datatype 'f payload = ProductPayload "'f product_payload" | ManufacturerPayload manufacturer_payload

text \<open>\<open>not s\<close> on an optional string: it is \<open>None\<close> or empty.\<close>

definition falsy :: "string option \<Rightarrow> bool" where
  "falsy s = (s = None \<or> s = Some [])"

text \<open>
  \<open>_build_product_payload\<close>: \<open>Inr None\<close> is the return value \<open>None\<close>, \<open>Inl\<close>
  an exception. The tax table is the dict \<open>load_taxes\<close> returned.
\<close>

definition build_product_payload ::
  "'f pyfloat \<Rightarrow> 'f product \<Rightarrow> 'f settings \<Rightarrow> string \<Rightarrow> ('f \<rightharpoonup> string)
     \<Rightarrow> pyexc + 'f product_payload option" where
  "build_product_payload fl product settings currency_id tax_cache =
     (if falsy (prod_number product) \<or> falsy (prod_name product) then Inr None
      else
        case coerce_float fl (case prod_price product of None \<Rightarrow> PNone
                                                        | Some pr \<Rightarrow> price_net pr) of
          Inl e \<Rightarrow> Inl e
        | Inr None \<Rightarrow> Inr None
        | Inr (Some pnet) \<Rightarrow>
            (case resolve_tax_rate fl (prod_tax_rate product) settings of
               Inl e \<Rightarrow> Inl e
             | Inr tax_rate \<Rightarrow>
                 (let tax_id = tax_cache tax_rate
                  in if falsy tax_id
                     then Inl (ValueError (''Tax rate '' @ str_of_float fl tax_rate
                                           @ '' not available in Shopware.''))
                     else Inr (Some
                       \<lparr>pl_id = stable_uuid ''product'' (the (prod_number product)),
                        pl_productNumber = the (prod_number product),
                        pl_name = the (prod_name product),
                        pl_description = prod_description product,
                        pl_ean = prod_ean product,
                        pl_manufacturerId =
                          (if falsy (prod_manufacturer product) then None
                           else Some (stable_uuid ''manufacturer''
                                        (the (prod_manufacturer product)))),
                        pl_taxId = the tax_id,
                        pl_price = [\<lparr>currencyId = currency_id, net = pnet,
                                     gross = calculate_gross fl pnet tax_rate,
                                     linked = True\<rparr>],
                        pl_stock = 0,
                        pl_active = True,
                        pl_customFields = prod_etim product,
                        pl_visibilities =
                          (if falsy (sales_channel_id (shopware settings)) then None
                           else Some
                             [\<lparr>salesChannelId = the (sales_channel_id (shopware settings)),
                               visibility =
                                 (case default_visibility (shopware settings) of
                                    None \<Rightarrow> 30
                                  | Some v \<Rightarrow> if v = 0 then 30 else v)\<rparr>])\<rparr>))))"

section \<open>The remote platform (shopware.py)\<close>

text \<open>
  One HTTP exchange of \<open>ShopwareClient._request\<close>. The platform, the network and
  the token are a parameter: a function from the client's and the platform's state
  \<open>'c\<close> and the request to an exception or a response, and the next state. Of a
  response the program reads the status code, whether \<open>json["errors"]\<close> is truthy,
  and the rows of \<open>json["data"]\<close>.
\<close>

datatype 'f api_call = SearchCurrency string | SearchTax | Sync string "'f payload list"

record 'f data_row =
  row_id :: string
  row_taxRate :: "'f pyval"

record 'f response =
  status_code :: int
  has_errors :: bool
  data_rows :: "'f data_row list"

type_synonym ('f, 'c) remote = "'c \<Rightarrow> 'f api_call \<Rightarrow> (pyexc + 'f response) \<times> 'c"

record stats =
  products_processed :: int
  products_uploaded :: int
  errors :: int

text \<open>The lines appended to \<open>errors.ndjson\<close>: an item and a reason.\<close>

datatype 'f error_entry = RejectedProduct "'f product" string
  | FailedPayload "'f product_payload" string

text \<open>
  Everything a run changes: the client and platform state, the requests sent so far
  (a record of the calls, kept for the statements about their order), the statistics,
  and the two files a run appends to.
\<close>

record ('f, 'c) world =
  client :: 'c
  requests :: "'f api_call list"
  stats :: stats
  error_file :: "'f error_entry list"
  media_queue :: "(string option \<times> string list) list"

definition do_request ::
  "('f, 'c) remote \<Rightarrow> 'f api_call \<Rightarrow> ('f, 'c) world \<Rightarrow> (pyexc + 'f response) \<times> ('f, 'c) world" where
  "do_request rem call w =
     (case rem (client w) call of
        (r, c') \<Rightarrow> (r, w\<lparr>client := c', requests := requests w @ [call]\<rparr>))"

definition sync_upsert ::
  "('f, 'c) remote \<Rightarrow> string \<Rightarrow> 'f payload list \<Rightarrow> ('f, 'c) world
     \<Rightarrow> (pyexc + 'f response) \<times> ('f, 'c) world" where
  "sync_upsert rem entity payload w =
     (if payload = [] then (Inr \<lparr>status_code = 200, has_errors = False, data_rows = []\<rparr>, w)
      else
        case do_request rem (Sync entity payload) w of
          (Inl e, w') \<Rightarrow> (Inl e, w')
        | (Inr r, w') \<Rightarrow>
            if 400 \<le> status_code r
            then (Inl (HTTPError (''Sync request failed with status ''
                                   @ str_of_int (status_code r))), w')
            else if has_errors r then (Inl (SyncError ''Sync returned errors''), w')
            else (Inr r, w'))"

definition get_currency_id ::
  "('f, 'c) remote \<Rightarrow> string \<Rightarrow> ('f, 'c) world \<Rightarrow> (pyexc + string) \<times> ('f, 'c) world" where
  "get_currency_id rem iso_code w =
     (case do_request rem (SearchCurrency iso_code) w of
        (Inl e, w') \<Rightarrow> (Inl e, w')
      | (Inr r, w') \<Rightarrow>
          (case data_rows r of
             [] \<Rightarrow> (Inl (ValueError (''Currency '' @ iso_code @ '' not found.'')), w')
           | row # _ \<Rightarrow> (Inr (row_id row), w')))"

text \<open>\<open>load_taxes\<close>: a later row replaces an earlier one with the same rate.\<close>

fun tax_rows :: "'f pyfloat \<Rightarrow> 'f data_row list \<Rightarrow> ('f \<rightharpoonup> string) \<Rightarrow> pyexc + ('f \<rightharpoonup> string)" where
  "tax_rows fl [] cache = Inr cache"
| "tax_rows fl (row # rows) cache =
     (case py_float fl (row_taxRate row) of
        Conv rate \<Rightarrow> tax_rows fl rows (cache(rate \<mapsto> row_id row))
      | TypeErr \<Rightarrow> Inl (OtherError ''TypeError'')
      | ValueErr \<Rightarrow> Inl (ValueError ''could not convert string to float'')
      | OverflowErr \<Rightarrow> Inl (OverflowError ''int too large to convert to float''))"

definition load_taxes ::
  "'f pyfloat \<Rightarrow> ('f, 'c) remote \<Rightarrow> ('f, 'c) world
     \<Rightarrow> (pyexc + ('f \<rightharpoonup> string)) \<times> ('f, 'c) world" where
  "load_taxes fl rem w =
     (case do_request rem SearchTax w of
        (Inl e, w') \<Rightarrow> (Inl e, w')
      | (Inr r, w') \<Rightarrow> (tax_rows fl (data_rows r) Map.empty, w'))"

section \<open>Batch upload and the import run (importer.py)\<close>

text \<open>The exceptions \<open>_send_batch\<close> catches: \<open>SyncError\<close> and \<open>httpx.HTTPError\<close>.\<close>

fun caught :: "pyexc \<Rightarrow> bool" where
  "caught (SyncError m) = True"
| "caught (HTTPError m) = True"
| "caught e = False"

definition add_uploaded :: "int \<Rightarrow> ('f, 'c) world \<Rightarrow> ('f, 'c) world" where
  "add_uploaded n w = w\<lparr>stats := (stats w)\<lparr>products_uploaded := products_uploaded (stats w) + n\<rparr>\<rparr>"

definition add_error :: "'f error_entry \<Rightarrow> ('f, 'c) world \<Rightarrow> ('f, 'c) world" where
  "add_error entry w =
     w\<lparr>stats := (stats w)\<lparr>errors := errors (stats w) + 1\<rparr>,
       error_file := error_file w @ [entry]\<rparr>"

text \<open>
  \<open>_send_batch\<close>. The result is the exception that leaves the function, if any, and
  the world after it. An empty list is never sent (\<open>sync_upsert\<close> returns at once),
  so a failed list holds at least one item and both halves of a longer one are shorter.
\<close>

lemma sync_upsert_fails_nonempty:
  "sync_upsert rem entity payload w = (Inl e, w') \<Longrightarrow> payload \<noteq> []"
  by (auto simp: sync_upsert_def)

function send_batch ::
  "('f, 'c) remote \<Rightarrow> 'f product_payload list \<Rightarrow> ('f, 'c) world
     \<Rightarrow> pyexc option \<times> ('f, 'c) world" where
  "send_batch rem batch w =
     (case sync_upsert rem ''product'' (map ProductPayload batch) w of
        (Inr r, w1) \<Rightarrow> (None, add_uploaded (int (length batch)) w1)
      | (Inl exc, w1) \<Rightarrow>
          if \<not> caught exc then (Some exc, w1)
          else if length batch = 1
          then (None, add_error (FailedPayload (hd batch) (exc_str exc)) w1)
          else
            (let mid = length batch div 2
             in case send_batch rem (take mid batch) w1 of
                  (Some e, w2) \<Rightarrow> (Some e, w2)
                | (None, w2) \<Rightarrow> send_batch rem (drop mid batch) w2))"
  by pat_completeness auto
termination
proof (relation "measure (\<lambda>(rem, batch, w). length batch)")
  show "wf (measure (\<lambda>(rem, batch, w). length batch))"
    by simp
next
  fix rem :: "('f, 'c) remote" and batch :: "'f product_payload list"
    and w :: "('f, 'c) world" and x w1 exc mid
  assume up: "(x, w1) = sync_upsert rem ''product'' (map ProductPayload batch) w"
    and x: "x = Inl exc" and len: "length batch \<noteq> 1" and mid: "mid = length batch div 2"
  from up x have "batch \<noteq> []"
    using sync_upsert_fails_nonempty [of rem "''product''" "map ProductPayload batch" w exc w1]
    by simp
  with len have "2 \<le> length batch"
    by (cases batch) (auto simp: Suc_le_eq)
  with mid show "((rem, take mid batch, w1), (rem, batch, w)) \<in> measure (\<lambda>(rem, batch, w). length batch)"
    by simp
next
  fix rem :: "('f, 'c) remote" and batch :: "'f product_payload list"
    and w :: "('f, 'c) world" and x w1 exc mid x2 w2
  assume up: "(x, w1) = sync_upsert rem ''product'' (map ProductPayload batch) w"
    and x: "x = Inl exc" and len: "length batch \<noteq> 1" and mid: "mid = length batch div 2"
  from up x have "batch \<noteq> []"
    using sync_upsert_fails_nonempty [of rem "''product''" "map ProductPayload batch" w exc w1]
    by simp
  with len have "2 \<le> length batch"
    by (cases batch) (auto simp: Suc_le_eq)
  with mid show "((rem, drop mid batch, w2), (rem, batch, w)) \<in> measure (\<lambda>(rem, batch, w). length batch)"
    by simp
qed

declare send_batch.simps [simp del]

text \<open>
  \<open>_send_sync_batches\<close>: the items are sent in groups of \<open>batch_size\<close>, each group
  once; an exception of \<open>sync_upsert\<close> leaves the function.
\<close>

fun send_sync_loop ::
  "('f, 'c) remote \<Rightarrow> string \<Rightarrow> int \<Rightarrow> 'f payload list \<Rightarrow> 'f payload list
     \<Rightarrow> ('f, 'c) world \<Rightarrow> pyexc option \<times> ('f, 'c) world" where
  "send_sync_loop rem entity batch_size batch [] w =
     (if batch \<noteq> []
      then (case sync_upsert rem entity batch w of
              (Inl e, w1) \<Rightarrow> (Some e, w1)
            | (Inr r, w1) \<Rightarrow> (None, w1))
      else (None, w))"
| "send_sync_loop rem entity batch_size batch (item # rest) w =
     (let batch' = batch @ [item]
      in if batch_size \<le> int (length batch')
         then (case sync_upsert rem entity batch' w of
                 (Inl e, w1) \<Rightarrow> (Some e, w1)
               | (Inr r, w1) \<Rightarrow> send_sync_loop rem entity batch_size [] rest w1)
         else send_sync_loop rem entity batch_size batch' rest w)"

definition send_sync_batches ::
  "('f, 'c) remote \<Rightarrow> string \<Rightarrow> 'f payload list \<Rightarrow> int \<Rightarrow> ('f, 'c) world
     \<Rightarrow> pyexc option \<times> ('f, 'c) world" where
  "send_sync_batches rem entity payload batch_size w =
     send_sync_loop rem entity batch_size [] payload w"

definition collect_manufacturer_names :: "'f product list \<Rightarrow> string set" where
  "collect_manufacturer_names products =
     set (List.map_filter
            (\<lambda>p. if falsy (prod_manufacturer p) then None else prod_manufacturer p) products)"

text \<open>\<open>sorted(names)\<close> orders strings by their code points.\<close>

definition upsert_manufacturers ::
  "('f, 'c) remote \<Rightarrow> string set \<Rightarrow> ('f, 'c) world \<Rightarrow> pyexc option \<times> ('f, 'c) world" where
  "upsert_manufacturers rem names w =
     send_sync_batches rem ''product_manufacturer''
       (map (\<lambda>n. ManufacturerPayload \<lparr>mf_id = stable_uuid ''manufacturer'' n, mf_name = n\<rparr>)
            (sorted_list_of_set names))
       200 w"

definition add_processed :: "('f, 'c) world \<Rightarrow> ('f, 'c) world" where
  "add_processed w =
     w\<lparr>stats := (stats w)\<lparr>products_processed := products_processed (stats w) + 1\<rparr>\<rparr>"

definition queue_media :: "'f product \<Rightarrow> ('f, 'c) world \<Rightarrow> ('f, 'c) world" where
  "queue_media product w =
     (case prod_media product of
        None \<Rightarrow> w
      | Some ms \<Rightarrow> if ms = [] then w
                   else w\<lparr>media_queue := media_queue w @ [(prod_number product, ms)]\<rparr>)"

text \<open>
  The loop of \<open>import_products\<close> over the records of the store, with the pending
  batch, followed by the flush of the last partial batch.
\<close>

fun import_loop ::
  "'f pyfloat \<Rightarrow> ('f, 'c) remote \<Rightarrow> 'f settings \<Rightarrow> string \<Rightarrow> ('f \<rightharpoonup> string) \<Rightarrow> int
     \<Rightarrow> 'f product_payload list \<Rightarrow> 'f product list \<Rightarrow> ('f, 'c) world
     \<Rightarrow> pyexc option \<times> ('f, 'c) world" where
  "import_loop fl rem settings currency_id tax_cache batch_size batch [] w =
     (if batch \<noteq> [] then send_batch rem batch w else (None, w))"
| "import_loop fl rem settings currency_id tax_cache batch_size batch (product # rest) w =
     (let w1 = add_processed w
      in case build_product_payload fl product settings currency_id tax_cache of
           Inl e \<Rightarrow> (Some e, w1)
         | Inr None \<Rightarrow>
             import_loop fl rem settings currency_id tax_cache batch_size batch rest
               (add_error (RejectedProduct product ''missing_required_fields'') w1)
         | Inr (Some payload) \<Rightarrow>
             (let w2 = queue_media product w1; batch' = batch @ [payload]
              in if batch_size \<le> int (length batch')
                 then (case send_batch rem batch' w2 of
                         (Some e, w3) \<Rightarrow> (Some e, w3)
                       | (None, w3) \<Rightarrow>
                           import_loop fl rem settings currency_id tax_cache batch_size [] rest w3)
                 else import_loop fl rem settings currency_id tax_cache batch_size batch' rest w2))"

text \<open>
  \<open>import_products\<close> on the records \<open>iter_ndjson\<close> reads from the store (twice, the
  same list). The run starts from fresh statistics; the result is the statistics
  returned, or the exception that ends the run, and the world after it.
\<close>

definition import_products ::
  "'f pyfloat \<Rightarrow> ('f, 'c) remote \<Rightarrow> 'f product list \<Rightarrow> 'f settings \<Rightarrow> int \<Rightarrow> ('f, 'c) world
     \<Rightarrow> (pyexc + stats) \<times> ('f, 'c) world" where
  "import_products fl rem products settings batch_size w =
     (let w0 = w\<lparr>stats := \<lparr>products_processed = 0, products_uploaded = 0, errors = 0\<rparr>\<rparr>
      in case get_currency_id rem (currency (price_selector (mapping settings))) w0 of
           (Inl e, w1) \<Rightarrow> (Inl e, w1)
         | (Inr currency_id, w1) \<Rightarrow>
             (case load_taxes fl rem w1 of
                (Inl e, w2) \<Rightarrow> (Inl e, w2)
              | (Inr tax_cache, w2) \<Rightarrow>
                  (case upsert_manufacturers rem (collect_manufacturer_names products) w2 of
                     (Some e, w3) \<Rightarrow> (Inl e, w3)
                   | (None, w3) \<Rightarrow>
                       (case import_loop fl rem settings currency_id tax_cache batch_size []
                               products w3 of
                          (Some e, w4) \<Rightarrow> (Inl e, w4)
                        | (None, w4) \<Rightarrow> (Inr (stats w4), w4)))))"

section \<open>Sample data\<close>

text \<open>
  The field mapping and the article of \<open>Tests/test_parsing.py\<close>, and variants of the
  article: one whose price has no currency, one with two tax tags, and one with a
  namespace and padded text.
\<close>

definition sample_mapping :: mapping_config where
  "sample_mapping =
     \<lparr>product_number = ''SUPPLIER_PID'', name = ''DESCRIPTION_SHORT'',
      description = ''DESCRIPTION_LONG'', ean = ''INTERNATIONAL_PID'',
      manufacturer = ''MANUFACTURER_NAME'',
      price_selector = \<lparr>price_type = ''net_list'', currency = ''EUR''\<rparr>\<rparr>"

definition leaf :: "string \<Rightarrow> string \<Rightarrow> xml" where
  "leaf tag txt = Elem tag [] (Some txt) []"

definition article_details :: xml where
  "article_details =
     Elem ''ARTICLE_DETAILS'' [] None
       [leaf ''DESCRIPTION_SHORT'' ''Test Product'', leaf ''DESCRIPTION_LONG'' ''Long Description'',
        leaf ''INTERNATIONAL_PID'' ''4012345678901'', leaf ''MANUFACTURER_NAME'' ''Acme'']"

definition article_without_currency :: xml where
  "article_without_currency =
     Elem ''ARTICLE'' [] None
       [leaf ''SUPPLIER_PID'' ''ABC123'', article_details,
        Elem ''ARTICLE_ORDER_DETAILS'' [] None
          [Elem ''ARTICLE_PRICE_DETAILS'' [] None
             [Elem ''ARTICLE_PRICE'' [(''price_type'', ''net_list'')] None
                [leaf ''PRICE_AMOUNT'' ''10.00'']]]]"

definition article_two_tax_tags :: xml where
  "article_two_tax_tags =
     Elem ''ARTICLE'' [] None
       [leaf ''SUPPLIER_PID'' ''ABC123'', article_details,
        leaf ''TAX'' ''abc'', leaf ''TAX_RATE'' ''19'']"

definition article_padded :: xml where
  "article_padded =
     Elem ''{urn:bmecat}ARTICLE'' [] None
       [leaf ''{urn:bmecat}SUPPLIER_PID'' '' ABC123  '', article_details]"


definition ok_response :: "b64 response" where
  "ok_response = \<lparr>status_code = 200, has_errors = False, data_rows = []\<rparr>"

definition rejecting_remote :: "b64 payload \<Rightarrow> (b64, unit) remote" where
  "rejecting_remote bad c call =
     (case call of
        Sync entity g \<Rightarrow> (Inr (ok_response\<lparr>has_errors := bad \<in> set g\<rparr>), c)
      | SearchCurrency iso_code \<Rightarrow>
          (Inr (ok_response\<lparr>data_rows := [\<lparr>row_id = ''cur-eur'', row_taxRate = PNone\<rparr>]\<rparr>), c)
      | SearchTax \<Rightarrow>
          (Inr (ok_response\<lparr>data_rows := [\<lparr>row_id = ''tax-19'', row_taxRate = PFloat (Fin 19)\<rparr>]\<rparr>), c))"

definition empty_world :: "(b64, unit) world" where
  "empty_world =
     \<lparr>client = (), requests = [],
      stats = \<lparr>products_processed = 0, products_uploaded = 0, errors = 0\<rparr>,
      error_file = [], media_queue = []\<rparr>"

text \<open>Settings and a record as the extractor emits it, with the default tax rate.\<close>

definition sample_settings :: "b64 settings" where
  "sample_settings =
     \<lparr>source_name = ''bmecat'', mapping = sample_mapping,
      shopware = \<lparr>base_url = ''https://shop.example'', client_id = None, client_secret = None,
                  token = Some ''token'', sales_channel_id = None, default_visibility = None\<rparr>,
      tax = \<lparr>default_rate = Fin 19, tax_mapping = Map.empty\<rparr>\<rparr>"

definition sample_product :: "string \<Rightarrow> b64 product" where
  "sample_product pn =
     \<lparr>prod_number = Some pn, prod_name = Some ''Test Product'', prod_description = None,
      prod_ean = None, prod_manufacturer = None,
      prod_price = Some \<lparr>price_net = PFloat (Fin 10), price_currency = PStr ''EUR''\<rparr>,
      prod_tax_rate = PNone, prod_etim = [], prod_media = None\<rparr>"

section \<open>Orderings of the statistics\<close>

text \<open>
  \<open>stats_le a b\<close>: no counter of \<open>b\<close> is below the one of \<open>a\<close>. \<open>pending s\<close>:
  the records processed and not yet counted as uploaded or as an error.
\<close>

definition stats_le :: "stats \<Rightarrow> stats \<Rightarrow> bool" where
  "stats_le a b \<longleftrightarrow>
     products_processed a \<le> products_processed b \<and>
     products_uploaded a \<le> products_uploaded b \<and> errors a \<le> errors b"

definition pending :: "stats \<Rightarrow> int" where
  "pending s = products_processed s - products_uploaded s - errors s"

(*APPEND*)

section \<open>The extractor keeps the required fields\<close>

lemma strip_trimmed:
  assumes "strip t \<noteq> []"
  shows "\<not> py_isspace (hd (strip t)) \<and> \<not> py_isspace (last (strip t))"
proof -
  let ?a = "dropWhile py_isspace t"
  let ?b = "dropWhile py_isspace (rev ?a)"
  from assms have b: "?b \<noteq> []" by (simp add: strip_def)
  have a: "?a \<noteq> []"
  proof
    assume "?a = []"
    then have "?b = []" by (simp only: rev.simps(1) dropWhile.simps(1))
    with b show False by (simp only:)
  qed
  have "last (strip t) = hd ?b" using b by (simp add: strip_def last_rev)
  moreover have "\<not> py_isspace (hd ?b)" using b by (rule hd_dropWhile)
  moreover have "hd (strip t) = last ?b" using b by (simp add: strip_def hd_rev)
  moreover have "last ?b = last (rev ?a)"
    using b by (metis dropWhile_eq_Nil_conv last_appendR takeWhile_dropWhile_id)
  moreover have "last (rev ?a) = hd ?a" using a by (simp add: last_rev)
  moreover have "\<not> py_isspace (hd ?a)" using a by (rule hd_dropWhile)
  ultimately show ?thesis by simp
qed

lemma find_text_Some_iff:
  "find_text elem tag = Some s \<longleftrightarrow>
     (\<exists>d t. find_first elem tag = Some d \<and> el_text d = Some t \<and> strip t = s \<and> s \<noteq> [])"
  by (auto simp: find_text_def Let_def split: option.splits)

lemma find_text_None_iff:
  "find_text elem tag = None \<longleftrightarrow>
     \<not> (\<exists>d t. find_first elem tag = Some d \<and> el_text d = Some t \<and> strip t \<noteq> [])"
  by (auto simp: find_text_def Let_def split: option.splits)

lemma iter_split:
  "iter_bmecat_products fl m (before @ elem # after) =
     iter_bmecat_products fl m before
     @ (if strip_ns (el_tag elem) = ''ARTICLE''
        then (case parse_article fl m elem of None \<Rightarrow> [] | Some p \<Rightarrow> [p]) else [])
     @ iter_bmecat_products fl m after"
  by (simp add: iter_bmecat_products_def List.map_filter_def split: option.splits)

lemma parse_article_None_iff:
  "parse_article fl m elem = None \<longleftrightarrow>
     find_text elem (product_number m) = None \<or> find_text elem (name m) = None"
  by (simp add: parse_article_def Let_def)

lemma iter_Nil: "iter_bmecat_products fl m [] = []"
  by (simp add: iter_bmecat_products_def List.map_filter_def)

lemma iter_Cons:
  "iter_bmecat_products fl m (elem # events) =
     (if strip_ns (el_tag elem) = ''ARTICLE''
      then (case parse_article fl m elem of None \<Rightarrow> [] | Some p \<Rightarrow> [p]) else [])
     @ iter_bmecat_products fl m events"
  using iter_split [of fl m "[]" elem events] by (simp add: iter_Nil)

lemma iter_length:
  "length (iter_bmecat_products fl m events) =
     length (filter (\<lambda>e. strip_ns (el_tag e) = ''ARTICLE'' \<and>
                          find_text e (product_number m) \<noteq> None \<and>
                          find_text e (name m) \<noteq> None) events)"
proof (induction events)
  case Nil
  show ?case by (simp add: iter_Nil)
next
  case (Cons e es)
  show ?case
  proof (cases "parse_article fl m e")
    case None
    with Cons show ?thesis
      using parse_article_None_iff [of fl m e] by (auto simp: iter_Cons)
  next
    case (Some p)
    with Cons show ?thesis
      using parse_article_None_iff [of fl m e] by (auto simp: iter_Cons)
  qed
qed

text \<open>
  C9. The extraction runs over the elements of the event stream. An item element (an
  element with the local name \<open>ARTICLE\<close>) whose first descendant with the mapped
  product-number tag and whose first descendant with the mapped name tag both have text
  that is not empty after trimming yields exactly one record, placed between the
  records of the events before and after it; the record's \<open>productNumber\<close> and
  \<open>name\<close> are those texts trimmed: not empty, with no white space at either end. An
  item element where either text is missing or empty after trimming yields no record,
  and an element that is not an item yields no record; the other events are extracted
  as before. So the number of records of a stream is the number of its item elements
  that have both texts.
\<close>

theorem extraction_required_fields:
  "(strip_ns (el_tag elem) = ''ARTICLE'' \<and>
    find_first elem (product_number m) = Some da \<and> el_text da = Some ta \<and> strip ta \<noteq> [] \<and>
    find_first elem (name m) = Some db \<and> el_text db = Some tb \<and> strip tb \<noteq> []
    \<longrightarrow> (\<exists>p. parse_article fl m elem = Some p \<and>
           iter_bmecat_products fl m (before @ elem # after)
             = iter_bmecat_products fl m before @ [p] @ iter_bmecat_products fl m after \<and>
           prod_number p = Some (strip ta) \<and> prod_name p = Some (strip tb) \<and>
           \<not> py_isspace (hd (strip ta)) \<and> \<not> py_isspace (last (strip ta)) \<and>
           \<not> py_isspace (hd (strip tb)) \<and> \<not> py_isspace (last (strip tb))))
   \<and> (strip_ns (el_tag elem) = ''ARTICLE'' \<and>
      ((\<nexists>d t. find_first elem (product_number m) = Some d \<and> el_text d = Some t \<and> strip t \<noteq> []) \<or>
       (\<nexists>d t. find_first elem (name m) = Some d \<and> el_text d = Some t \<and> strip t \<noteq> []))
      \<longrightarrow> parse_article fl m elem = None \<and>
          iter_bmecat_products fl m (before @ elem # after)
            = iter_bmecat_products fl m before @ iter_bmecat_products fl m after)
   \<and> (strip_ns (el_tag elem) \<noteq> ''ARTICLE''
      \<longrightarrow> iter_bmecat_products fl m (before @ elem # after)
            = iter_bmecat_products fl m before @ iter_bmecat_products fl m after)
   \<and> iter_bmecat_products fl m [] = []
   \<and> length (iter_bmecat_products fl m events)
       = length (filter (\<lambda>e. strip_ns (el_tag e) = ''ARTICLE'' \<and>
            (\<exists>d t. find_first e (product_number m) = Some d \<and> el_text d = Some t \<and> strip t \<noteq> []) \<and>
            (\<exists>d t. find_first e (name m) = Some d \<and> el_text d = Some t \<and> strip t \<noteq> []))
          events)"
proof -
  have both: "\<exists>p. parse_article fl m elem = Some p \<and>
           iter_bmecat_products fl m (before @ elem # after)
             = iter_bmecat_products fl m before @ [p] @ iter_bmecat_products fl m after \<and>
           prod_number p = Some (strip ta) \<and> prod_name p = Some (strip tb) \<and>
           \<not> py_isspace (hd (strip ta)) \<and> \<not> py_isspace (last (strip ta)) \<and>
           \<not> py_isspace (hd (strip tb)) \<and> \<not> py_isspace (last (strip tb))"
    if h: "strip_ns (el_tag elem) = ''ARTICLE'' \<and>
      find_first elem (product_number m) = Some da \<and> el_text da = Some ta \<and> strip ta \<noteq> [] \<and>
      find_first elem (name m) = Some db \<and> el_text db = Some tb \<and> strip tb \<noteq> []"
  proof -
    from h have pn: "find_text elem (product_number m) = Some (strip ta)"
      and nm: "find_text elem (name m) = Some (strip tb)"
      by (auto simp: find_text_Some_iff)
    from pn nm obtain p where p: "parse_article fl m elem = Some p"
      "prod_number p = Some (strip ta)" "prod_name p = Some (strip tb)"
      by (simp add: parse_article_def Let_def)
    from p(1) h have "iter_bmecat_products fl m (before @ elem # after)
        = iter_bmecat_products fl m before @ [p] @ iter_bmecat_products fl m after"
      by (simp add: iter_split)
    with p h strip_trimmed [of ta] strip_trimmed [of tb] show ?thesis
      by blast
  qed
  have missing: "parse_article fl m elem = None \<and>
          iter_bmecat_products fl m (before @ elem # after)
            = iter_bmecat_products fl m before @ iter_bmecat_products fl m after"
    if h: "strip_ns (el_tag elem) = ''ARTICLE'' \<and>
      ((\<nexists>d t. find_first elem (product_number m) = Some d \<and> el_text d = Some t \<and> strip t \<noteq> []) \<or>
       (\<nexists>d t. find_first elem (name m) = Some d \<and> el_text d = Some t \<and> strip t \<noteq> []))"
  proof -
    from h have "find_text elem (product_number m) = None \<or> find_text elem (name m) = None"
      by (simp add: find_text_None_iff)
    then have n: "parse_article fl m elem = None"
      by (simp add: parse_article_None_iff)
    with h show ?thesis
      by (simp add: iter_split)
  qed
  have other: "iter_bmecat_products fl m (before @ elem # after)
            = iter_bmecat_products fl m before @ iter_bmecat_products fl m after"
    if "strip_ns (el_tag elem) \<noteq> ''ARTICLE''"
    using that by (simp add: iter_split)
  have count: "length (iter_bmecat_products fl m events)
       = length (filter (\<lambda>e. strip_ns (el_tag e) = ''ARTICLE'' \<and>
            (\<exists>d t. find_first e (product_number m) = Some d \<and> el_text d = Some t \<and> strip t \<noteq> []) \<and>
            (\<exists>d t. find_first e (name m) = Some d \<and> el_text d = Some t \<and> strip t \<noteq> []))
          events)"
    by (simp add: iter_length find_text_None_iff)
  from both missing other count show ?thesis
    by (simp add: iter_Nil)
qed

lemmas eval_xml = find_text_def find_first_def findall_def strip_ns_def strip_def py_isspace_def
  leaf_def article_details_def sample_mapping_def

theorem extraction_required_fields_witness:
  "(\<exists>p. parse_article binary64 sample_mapping article_padded = Some p \<and>
        iter_bmecat_products binary64 sample_mapping
          [article_details, article_padded, Elem ''T_NEW_CATALOG'' [] None [article_padded]] = [p] \<and>
        prod_number p = Some ''ABC123'' \<and> prod_name p = Some ''Test Product'') \<and>
   parse_article binary64 sample_mapping (Elem ''ARTICLE'' [] None []) = None \<and>
   iter_bmecat_products binary64 sample_mapping [Elem ''ARTICLE'' [] None []] = []"
proof -
  let ?cat = "Elem ''T_NEW_CATALOG'' [] None [article_padded]"
  let ?it = "iter_bmecat_products binary64 sample_mapping"
  have h: "strip_ns (el_tag article_padded) = ''ARTICLE'' \<and>
           find_first article_padded (product_number sample_mapping)
             = Some (leaf ''{urn:bmecat}SUPPLIER_PID'' '' ABC123  '') \<and>
           el_text (leaf ''{urn:bmecat}SUPPLIER_PID'' '' ABC123  '') = Some '' ABC123  '' \<and>
           strip '' ABC123  '' \<noteq> [] \<and>
           find_first article_padded (name sample_mapping)
             = Some (leaf ''DESCRIPTION_SHORT'' ''Test Product'') \<and>
           el_text (leaf ''DESCRIPTION_SHORT'' ''Test Product'') = Some ''Test Product'' \<and>
           strip ''Test Product'' \<noteq> []"
    by (simp add: article_padded_def eval_xml)
  have s: "strip '' ABC123  '' = ''ABC123''" "strip ''Test Product'' = ''Test Product''"
    by (simp_all add: strip_def py_isspace_def)
  have n: "strip_ns (el_tag (Elem ''ARTICLE'' [] None [])) = ''ARTICLE'' \<and>
          ((\<nexists>d t. find_first (Elem ''ARTICLE'' [] None []) (product_number sample_mapping) = Some d \<and>
              el_text d = Some t \<and> strip t \<noteq> []) \<or>
           (\<nexists>d t. find_first (Elem ''ARTICLE'' [] None []) (name sample_mapping) = Some d \<and>
              el_text d = Some t \<and> strip t \<noteq> []))"
    by (simp add: find_first_def findall_def strip_ns_def)
  have o1: "strip_ns (el_tag article_details) \<noteq> ''ARTICLE''"
    by (simp add: article_details_def strip_ns_def)
  have o2: "strip_ns (el_tag ?cat) \<noteq> ''ARTICLE''"
    by (simp add: strip_ns_def)
  have empty: "?it [] = []"
    using extraction_required_fields [where m = sample_mapping and fl = binary64] by blast
  have d: "?it [article_details] = []"
    using extraction_required_fields [where m = sample_mapping and fl = binary64
        and elem = article_details and before = "[]" and after = "[]"] o1 empty
    by simp
  have c: "?it [?cat] = []"
    using extraction_required_fields [where m = sample_mapping and fl = binary64
        and elem = ?cat and before = "[]" and after = "[]"] o2 empty
    by simp
  from extraction_required_fields [where elem = article_padded and m = sample_mapping
      and fl = binary64 and before = "[article_details]" and after = "[?cat]"
      and ta = "'' ABC123  ''" and tb = "''Test Product''"
      and da = "leaf ''{urn:bmecat}SUPPLIER_PID'' '' ABC123  ''"
      and db = "leaf ''DESCRIPTION_SHORT'' ''Test Product''"] h s d c
  have "\<exists>p. parse_article binary64 sample_mapping article_padded = Some p \<and>
        ?it [article_details, article_padded, ?cat] = [p] \<and>
        prod_number p = Some ''ABC123'' \<and> prod_name p = Some ''Test Product''"
    by auto
  moreover from extraction_required_fields [where elem = "Elem ''ARTICLE'' [] None []"
      and m = sample_mapping and fl = binary64 and before = "[]" and after = "[]"] n empty
  have "parse_article binary64 sample_mapping (Elem ''ARTICLE'' [] None []) = None \<and>
   ?it [Elem ''ARTICLE'' [] None []] = []"
    by auto
  ultimately show ?thesis by simp
qed

section \<open>The currency of an extracted price\<close>

lemma find_price_in_currency:
  "find_price_in fl prices ptype ''currency'' =
     Some (case List.find (\<lambda>pr. map_of (el_attrs pr) ''price_type'' = Some ptype) prices of
             None \<Rightarrow> PNone
           | Some pr \<Rightarrow> opt_str (find_text pr ''PRICE_CURRENCY''))"
  by (induction prices) (simp_all add: Let_def)

text \<open>
  C4. The claim is that a record whose matching price element has no currency, or
  that has no matching price element, carries the configured default currency. The
  program does not do that: \<open>_find_price\<close> always binds the key \<open>currency\<close>, so
  the default of \<open>price_info.get("currency", default)\<close> is never taken, and the
  record's \<open>price.currency\<close> is \<open>None\<close> in both cases.
\<close>

theorem currency_default_not_applied:
  assumes "parse_article fl m elem = Some p"
    and "case List.find (\<lambda>pr. map_of (el_attrs pr) ''price_type'' = Some (price_type (price_selector m)))
                (findall elem ''ARTICLE_PRICE'') of
           None \<Rightarrow> True
         | Some pr \<Rightarrow> find_text pr ''PRICE_CURRENCY'' = None"
  shows "\<exists>pr. prod_price p = Some pr \<and> price_currency pr = PNone"
  using assms
  by (auto simp: parse_article_def Let_def find_price_def find_price_in_currency
      dict_get_default_def opt_str_def split: option.splits if_splits)

theorem currency_default_not_applied_witness:
  "(\<exists>p pr. parse_article binary64 sample_mapping article_without_currency = Some p \<and>
      prod_price p = Some pr \<and> price_currency pr = PNone \<and>
      price_currency pr \<noteq> PStr (currency (price_selector sample_mapping)))"
proof -
  have pn: "find_text article_without_currency (product_number sample_mapping) = Some ''ABC123''"
    by (simp add: article_without_currency_def eval_xml)
  have nm: "find_text article_without_currency (name sample_mapping) = Some ''Test Product''"
    by (simp add: article_without_currency_def eval_xml)
  from pn nm obtain p where p: "parse_article binary64 sample_mapping article_without_currency = Some p"
    by (simp add: parse_article_def Let_def)
  have h: "case List.find (\<lambda>pr. map_of (el_attrs pr) ''price_type''
                             = Some (price_type (price_selector sample_mapping)))
                (findall article_without_currency ''ARTICLE_PRICE'') of
           None \<Rightarrow> True
         | Some pr \<Rightarrow> find_text pr ''PRICE_CURRENCY'' = None"
    by (simp add: article_without_currency_def eval_xml)
  from currency_default_not_applied [OF p h] p show ?thesis
    by auto
qed

section \<open>The tax rate of an extracted record\<close>

lemma find_tax_in_skip:
  "\<forall>t\<in>set pre. find_text elem t = None \<Longrightarrow>
     find_tax_in fl elem (pre @ rest) = find_tax_in fl elem rest"
  by (induction pre) simp_all

lemma b_of_str_abc: "float_of_str binary64 ''abc'' = None"
  by (simp add: binary64_def b_of_str_def decimal_value_def is_digit_def)

lemma b_of_str_19: "float_of_str binary64 ''19'' \<noteq> None"
  by (simp add: binary64_def b_of_str_def decimal_value_def is_digit_def)

text \<open>
  C5, as amended. \<open>_find_tax\<close> goes through the candidate tags \<open>TAX\<close>,
  \<open>TAX_RATE\<close>, \<open>TAX_RATE_PERCENT\<close> in this order and decides at the first one
  that has text: the result is that text parsed as a number, or no tax rate when it does
  not parse. Later candidates are not tried then. With no candidate that has text the
  result is no tax rate.
\<close>

theorem find_tax_first_present:
  "(tax_tags = pre @ tag # post \<and> (\<forall>t\<in>set pre. find_text elem t = None) \<and>
      find_text elem tag = Some v \<longrightarrow> find_tax fl elem = float_of_str fl v) \<and>
   ((\<forall>t\<in>set tax_tags. find_text elem t = None) \<longrightarrow> find_tax fl elem = None)"
proof (intro conjI impI)
  assume h: "tax_tags = pre @ tag # post \<and> (\<forall>t\<in>set pre. find_text elem t = None) \<and>
      find_text elem tag = Some v"
  then have tt: "tax_tags = pre @ tag # post"
    and pre: "\<forall>t\<in>set pre. find_text elem t = None"
    and tg: "find_text elem tag = Some v"
    by simp_all
  have "find_tax fl elem = find_tax_in fl elem (pre @ tag # post)"
    by (simp only: find_tax_def tt)
  also have "\<dots> = find_tax_in fl elem (tag # post)"
    using pre by (rule find_tax_in_skip)
  also have "\<dots> = float_of_str fl v"
    using tg by simp
  finally show "find_tax fl elem = float_of_str fl v" .
next
  assume "\<forall>t\<in>set tax_tags. find_text elem t = None"
  then have "find_tax_in fl elem (tax_tags @ []) = find_tax_in fl elem []"
    by (rule find_tax_in_skip)
  then show "find_tax fl elem = None"
    by (simp add: find_tax_def)
qed

theorem find_tax_first_present_witness:
  "find_tax binary64 (Elem ''ARTICLE'' [] None [leaf ''TAX_RATE'' ''19''])
     = float_of_str binary64 ''19'' \<and>
   float_of_str binary64 ''19'' \<noteq> None \<and>
   find_tax binary64 (Elem ''ARTICLE'' [] None []) = None"
proof -
  let ?e = "Elem ''ARTICLE'' [] None [leaf ''TAX_RATE'' ''19'']"
  have a: "tax_tags = [''TAX''] @ ''TAX_RATE'' # [''TAX_RATE_PERCENT''] \<and>
           (\<forall>t\<in>set [''TAX'']. find_text ?e t = None) \<and> find_text ?e ''TAX_RATE'' = Some ''19''"
    by (simp add: tax_tags_def eval_xml)
  have b: "\<forall>t\<in>set tax_tags. find_text (Elem ''ARTICLE'' [] None []) t = None"
    by (simp add: tax_tags_def eval_xml)
  from find_tax_first_present [where elem = ?e and fl = binary64 and pre = "[''TAX'']"
      and tag = "''TAX_RATE''" and post = "[''TAX_RATE_PERCENT'']" and v = "''19''"] a
  have "find_tax binary64 ?e = float_of_str binary64 ''19''"
    by blast
  moreover from find_tax_first_present [where elem = "Elem ''ARTICLE'' [] None []" and fl = binary64] b
  have "find_tax binary64 (Elem ''ARTICLE'' [] None []) = None"
    by blast
  ultimately show ?thesis
    using b_of_str_19 by simp
qed

text \<open>
  The claim as stated fails: with \<open>TAX\<close> present and unparsable and \<open>TAX_RATE\<close>
  parsable, the result is no tax rate, not the value of \<open>TAX_RATE\<close>.
\<close>

theorem find_tax_later_tag_counterexample:
  "find_text article_two_tax_tags ''TAX'' = Some ''abc'' \<and>
   float_of_str binary64 ''abc'' = None \<and>
   find_text article_two_tax_tags ''TAX_RATE'' = Some ''19'' \<and>
   float_of_str binary64 ''19'' \<noteq> None \<and>
   find_tax binary64 article_two_tax_tags = None"
proof -
  have a: "find_text article_two_tax_tags ''TAX'' = Some ''abc''"
    by (simp add: article_two_tax_tags_def eval_xml)
  have b: "find_text article_two_tax_tags ''TAX_RATE'' = Some ''19''"
    by (simp add: article_two_tax_tags_def eval_xml)
  from a have "find_tax binary64 article_two_tax_tags = None"
    by (simp add: find_tax_def tax_tags_def b_of_str_abc)
  with a b b_of_str_abc b_of_str_19 show ?thesis
    by simp
qed

section \<open>Bisection isolates a rejected payload\<close>

lemma sync_upsert_keeps:
  "sync_upsert rem entity payload w = (r, w') \<Longrightarrow>
     stats w' = stats w \<and> error_file w' = error_file w \<and> media_queue w' = media_queue w"
  by (auto simp: sync_upsert_def do_request_def split: if_splits prod.splits sum.splits)









section \<open>The statistics of a run\<close>

lemma stats_le_refl: "stats_le a a"
  by (simp add: stats_le_def)

lemma stats_le_trans: "stats_le a b \<Longrightarrow> stats_le b c \<Longrightarrow> stats_le a c"
  by (auto simp: stats_le_def)

lemma send_batch_stats:
  "send_batch rem batch w = (out, w') \<Longrightarrow>
     stats_le (stats w) (stats w') \<and>
     products_processed (stats w') = products_processed (stats w) \<and>
     (out = None \<longrightarrow> pending (stats w') = pending (stats w) - int (length batch))"
proof (induction batch arbitrary: w out w' rule: length_induct)
  case (1 batch)
  note IH = "1.IH"
  note res = "1.prems"
  obtain x w1 where up: "sync_upsert rem ''product'' (map ProductPayload batch) w = (x, w1)"
    by (cases "sync_upsert rem ''product'' (map ProductPayload batch) w")
  from sync_upsert_keeps [OF up] have k: "stats w1 = stats w"
    by simp
  show ?case
  proof (cases x)
    case (Inr r)
    with up res have "out = None" "w' = add_uploaded (int (length batch)) w1"
      by (simp_all add: send_batch.simps [of rem batch w])
    with k show ?thesis
      by (simp add: add_uploaded_def stats_le_def pending_def)
  next
    case (Inl e)
    show ?thesis
    proof (cases "caught e")
      case False
      with up Inl res have "out = Some e" "w' = w1"
        by (simp_all add: send_batch.simps [of rem batch w])
      with k show ?thesis
        by (simp add: stats_le_def)
    next
      case True
      show ?thesis
      proof (cases "length batch = 1")
        case one: True
        with up Inl True res
        have "out = None" "w' = add_error (FailedPayload (hd batch) (exc_str e)) w1"
          by (simp_all add: send_batch.simps [of rem batch w])
        with k one show ?thesis
          by (simp add: add_error_def stats_le_def pending_def)
      next
        case False
        from up Inl have "batch \<noteq> []"
          using sync_upsert_fails_nonempty [of rem "''product''" "map ProductPayload batch" w e w1]
          by simp
        with False have len: "2 \<le> length batch"
          by (cases batch) (auto simp: Suc_le_eq)
        let ?l = "take (length batch div 2) batch" and ?r = "drop (length batch div 2) batch"
        from len have lt: "length ?l < length batch" "length ?r < length batch"
          and sum: "int (length ?l) + int (length ?r) = int (length batch)"
          by simp_all
        obtain o1 w2 where l: "send_batch rem ?l w1 = (o1, w2)"
          by (cases "send_batch rem ?l w1")
        from IH lt(1) l have lf: "stats_le (stats w1) (stats w2)"
          "products_processed (stats w2) = products_processed (stats w1)"
          "o1 = None \<longrightarrow> pending (stats w2) = pending (stats w1) - int (length ?l)"
          by blast+
        show ?thesis
        proof (cases o1)
          case (Some e')
          with up Inl True len l res have "out = Some e'" "w' = w2"
            by (simp_all add: send_batch.simps [of rem batch w] Let_def)
          with lf k show ?thesis
            by simp
        next
          case None
          with up Inl True len l res have r: "send_batch rem ?r w2 = (out, w')"
            by (simp add: send_batch.simps [of rem batch w] Let_def)
          from IH lt(2) r have rf: "stats_le (stats w2) (stats w')"
            "products_processed (stats w') = products_processed (stats w2)"
            "out = None \<longrightarrow> pending (stats w') = pending (stats w2) - int (length ?r)"
            by blast+
          from lf rf k None sum show ?thesis
            using stats_le_trans [of "stats w1" "stats w2" "stats w'"] by auto
        qed
      qed
    qed
  qed
qed

lemma queue_media_stats: "stats (queue_media p w) = stats w"
  by (simp add: queue_media_def split: option.splits)

lemma import_loop_stats:
  "import_loop fl rem st cid tc bs batch products w = (out, w') \<Longrightarrow>
     stats_le (stats w) (stats w') \<and>
     (out = None \<longrightarrow>
        products_processed (stats w') = products_processed (stats w) + int (length products) \<and>
        pending (stats w') = pending (stats w) - int (length batch))"
proof (induction products arbitrary: batch w out w')
  case Nil
  then show ?case
    using send_batch_stats [of rem batch w out w']
    by (auto simp: stats_le_refl split: if_splits)
next
  case (Cons p ps)
  let ?w1 = "add_processed w"
  have s1: "stats ?w1 = (stats w)\<lparr>products_processed := products_processed (stats w) + 1\<rparr>"
    by (simp add: add_processed_def)
  show ?case
  proof (cases "build_product_payload fl p st cid tc")
    case (Inl e)
    with Cons.prems have "out = Some e" "w' = ?w1"
      by (simp_all add: Let_def)
    with s1 show ?thesis
      by (simp add: stats_le_def)
  next
    case (Inr po)
    show ?thesis
    proof (cases po)
      case None
      let ?w2 = "add_error (RejectedProduct p ''missing_required_fields'') ?w1"
      from None Inr Cons.prems have "import_loop fl rem st cid tc bs batch ps ?w2 = (out, w')"
        by (simp add: Let_def)
      from Cons.IH [OF this] s1 show ?thesis
        by (auto simp: add_error_def stats_le_def pending_def)
    next
      case (Some pl)
      let ?w2 = "queue_media p ?w1"
      have s2: "stats ?w2 = stats ?w1"
        by (rule queue_media_stats)
      show ?thesis
      proof (cases "bs \<le> int (length (batch @ [pl]))")
        case False
        with Some Inr Cons.prems
        have "import_loop fl rem st cid tc bs (batch @ [pl]) ps ?w2 = (out, w')"
          by (simp add: Let_def)
        from Cons.IH [OF this] s1 s2 show ?thesis
          by (auto simp: stats_le_def pending_def)
      next
        case True
        obtain o1 w3 where sb: "send_batch rem (batch @ [pl]) ?w2 = (o1, w3)"
          by (cases "send_batch rem (batch @ [pl]) ?w2")
        from send_batch_stats [OF sb] have f: "stats_le (stats ?w2) (stats w3)"
          "products_processed (stats w3) = products_processed (stats ?w2)"
          "o1 = None \<longrightarrow> pending (stats w3) = pending (stats ?w2) - int (length (batch @ [pl]))"
          by blast+
        show ?thesis
        proof (cases o1)
          case (Some e)
          with True \<open>po = Some pl\<close> Inr sb Cons.prems have "out = Some e" "w' = w3"
            by (simp_all add: Let_def)
          with f s1 s2 show ?thesis
            by (auto simp: stats_le_def)
        next
          case None
          with True \<open>po = Some pl\<close> Inr sb Cons.prems
          have "import_loop fl rem st cid tc bs [] ps w3 = (out, w')"
            by (simp add: Let_def)
          from Cons.IH [OF this] f None s1 s2 show ?thesis
            by (auto simp: stats_le_def pending_def)
        qed
      qed
    qed
  qed
qed

lemma do_request_stats: "do_request rem call w = (r, w') \<Longrightarrow> stats w' = stats w"
  by (auto simp: do_request_def split: prod.splits)

lemma get_currency_id_stats: "get_currency_id rem c w = (r, w') \<Longrightarrow> stats w' = stats w"
  by (auto simp: get_currency_id_def split: prod.splits sum.splits list.splits
      dest: do_request_stats)

lemma load_taxes_stats: "load_taxes fl rem w = (r, w') \<Longrightarrow> stats w' = stats w"
  by (auto simp: load_taxes_def split: prod.splits sum.splits dest: do_request_stats)

lemma send_sync_loop_stats:
  "send_sync_loop rem entity bs batch items w = (out, w') \<Longrightarrow> stats w' = stats w"
proof (induction items arbitrary: batch w)
  case Nil
  then show ?case
    by (auto split: if_splits prod.splits sum.splits dest: sync_upsert_keeps)
next
  case (Cons i items)
  show ?case
  proof (cases "bs \<le> int (length (batch @ [i]))")
    case False
    with Cons.prems have "send_sync_loop rem entity bs (batch @ [i]) items w = (out, w')"
      by (simp add: Let_def)
    from Cons.IH [OF this] show ?thesis .
  next
    case True
    obtain x w1 where up: "sync_upsert rem entity (batch @ [i]) w = (x, w1)"
      by (cases "sync_upsert rem entity (batch @ [i]) w")
    from sync_upsert_keeps [OF up] have k: "stats w1 = stats w"
      by simp
    show ?thesis
    proof (cases x)
      case (Inl e)
      with True up Cons.prems k show ?thesis
        by (simp add: Let_def)
    next
      case (Inr r)
      with True up Cons.prems have "send_sync_loop rem entity bs [] items w1 = (out, w')"
        by (simp add: Let_def)
      from Cons.IH [OF this] k show ?thesis
        by simp
    qed
  qed
qed

lemma upsert_manufacturers_stats:
  "upsert_manufacturers rem names w = (out, w') \<Longrightarrow> stats w' = stats w"
  by (simp add: upsert_manufacturers_def send_sync_batches_def send_sync_loop_stats)

text \<open>
  C10. A run of \<open>import_products\<close> that returns its statistics returns
  \<open>products_processed = products_uploaded + errors\<close>, with \<open>products_processed\<close>
  the number of records read from the store: every record is counted once, as uploaded
  or as an error. The counters never decrease: neither a call of \<open>_send_batch\<close> nor
  any stretch of the loop over the records, finished or ended by an exception, leaves a
  counter lower than it found it.
\<close>

theorem import_stats_balance:
  "(import_products fl rem products settings batch_size w = (Inr s, w') \<longrightarrow>
      products_processed s = products_uploaded s + errors s \<and>
      products_processed s = int (length products) \<and>
      0 \<le> products_uploaded s \<and> 0 \<le> errors s) \<and>
   (send_batch rem batch v = (out, v') \<longrightarrow> stats_le (stats v) (stats v')) \<and>
   (import_loop fl rem settings cid tc batch_size batch products v = (out, v') \<longrightarrow>
      stats_le (stats v) (stats v'))"
proof (intro conjI impI)
  assume run: "import_products fl rem products settings batch_size w = (Inr s, w')"
  let ?w0 = "w\<lparr>stats := \<lparr>products_processed = 0, products_uploaded = 0, errors = 0\<rparr>\<rparr>"
  from run obtain cur w1 tcache w2 w3
    where a: "get_currency_id rem (currency (price_selector (mapping settings))) ?w0 = (Inr cur, w1)"
      and b: "load_taxes fl rem w1 = (Inr tcache, w2)"
      and c: "upsert_manufacturers rem (collect_manufacturer_names products) w2 = (None, w3)"
      and d: "import_loop fl rem settings cur tcache batch_size [] products w3 = (None, w')"
      and s: "s = stats w'"
    by (auto simp: import_products_def Let_def split: prod.splits sum.splits option.splits)
  from get_currency_id_stats [OF a] load_taxes_stats [OF b] upsert_manufacturers_stats [OF c]
  have z: "stats w3 = \<lparr>products_processed = 0, products_uploaded = 0, errors = 0\<rparr>"
    by simp
  from import_loop_stats [OF d] z s
  show "products_processed s = products_uploaded s + errors s"
    and "products_processed s = int (length products)"
    and "0 \<le> products_uploaded s" and "0 \<le> errors s"
    by (simp_all add: pending_def stats_le_def)
next
  assume "send_batch rem batch v = (out, v')"
  from send_batch_stats [OF this] show "stats_le (stats v) (stats v')"
    by simp
next
  assume "import_loop fl rem settings cid tc batch_size batch products v = (out, v')"
  from import_loop_stats [OF this] show "stats_le (stats v) (stats v')"
    by simp
qed

lemmas eval_run = import_products_def get_currency_id_def load_taxes_def do_request_def
  rejecting_remote_def ok_response_def empty_world_def upsert_manufacturers_def
  send_sync_batches_def collect_manufacturer_names_def List.map_filter_def falsy_def
  build_product_payload_def coerce_float_def resolve_tax_rate_def binary64_def
  sample_settings_def sample_product_def sample_mapping_def add_processed_def add_error_def
  add_uploaded_def queue_media_def sync_upsert_def Let_def

theorem import_stats_balance_witness:
  "\<exists>s w'. import_products binary64
             (rejecting_remote (ManufacturerPayload \<lparr>mf_id = [], mf_name = []\<rparr>))
             [sample_product ''A1'', (sample_product ''A2'')\<lparr>prod_name := None\<rparr>]
             sample_settings 250 empty_world = (Inr s, w') \<and>
           products_uploaded s = 1 \<and> errors s = 1 \<and> products_processed s = 2 \<and>
           products_processed s = products_uploaded s + errors s"
proof -
  let ?rem = "rejecting_remote (ManufacturerPayload \<lparr>mf_id = [], mf_name = []\<rparr>)"
  let ?ps = "[sample_product ''A1'', (sample_product ''A2'')\<lparr>prod_name := None\<rparr>]"
  let ?run = "import_products binary64 ?rem ?ps sample_settings 250 empty_world"
  have ev: "fst ?run = Inr \<lparr>products_processed = 2, products_uploaded = 1, errors = 1\<rparr>"
    by (simp add: eval_run send_batch.simps)
  then have run: "?run = (Inr \<lparr>products_processed = 2, products_uploaded = 1, errors = 1\<rparr>, snd ?run)"
    by (metis prod.collapse)
  from import_stats_balance [where fl = binary64 and rem = ?rem and products = ?ps
      and settings = sample_settings and batch_size = 250 and w = empty_world
      and s = "\<lparr>products_processed = 2, products_uploaded = 1, errors = 1\<rparr>"
      and w' = "snd ?run"] run
  have "products_processed \<lparr>products_processed = 2, products_uploaded = 1, errors = 1\<rparr>
      = products_uploaded \<lparr>products_processed = 2, products_uploaded = 1, errors = 1\<rparr>
        + errors \<lparr>products_processed = 2, products_uploaded = 1, errors = 1\<rparr>"
    by blast
  with run show ?thesis
    by (intro exI [of _ "\<lparr>products_processed = 2, products_uploaded = 1, errors = 1\<rparr>"]
        exI [of _ "snd ?run"]) simp
qed

(*THEOREMS*)

end
